theory Spec2Isabelle
  imports Complex_Main
begin

section \<open>Errors and arithmetic\<close>

text \<open>
  The two Python files are embedded as pure functions. A raised exception is a value
  \<open>Inl e\<close> of a result type \<open>error + 'a\<close>; a normal return is \<open>Inr v\<close>.
  The values of Python floats are idealised as reals: the operators \<open>+\<close>, \<open>-\<close>, \<open>*\<close>,
  \<open>/\<close>, \<open>abs\<close>, \<open>sqrt\<close> and the comparisons are exact. Rounding is outside this
  development, and so is the arithmetic on infinities and NaN with which the code goes
  on after a product or a sum has left the range of the floats. The places where the
  float type makes the code raise are kept:
  \<^item> the true division \<open>a / b\<close> raises \<open>ZeroDivisionError\<close> when \<open>b\<close> is zero;
  \<^item> the power \<open>a ** 2\<close> raises \<open>OverflowError\<close> when the square leaves the range of
    the floats, and is \<open>0.0\<close> when the square is too small for them.
\<close>

datatype error = ZeroDivisionError | OverflowError | Exception string

definition py_truediv :: "real \<Rightarrow> real \<Rightarrow> error + real" where
  "py_truediv a b = (if b = 0 then Inl ZeroDivisionError else Inr (a / b))"

text \<open>
  The range of a 64-bit float. A real of absolute value at least \<open>FLOAT_OVERFLOW\<close>
  (the largest float plus half a unit in its last place) rounds to an infinity; one of
  absolute value at most \<open>FLOAT_UNDERFLOW\<close> (half the smallest positive float) rounds
  to zero.
\<close>

definition FLOAT_OVERFLOW :: real where
  "FLOAT_OVERFLOW = 2 ^ 1024 - 2 ^ 970"

definition FLOAT_UNDERFLOW :: real where
  "FLOAT_UNDERFLOW = 1 / 2 ^ 1075"

text \<open>
  \<open>a ** 2\<close> on a float: \<open>OverflowError\<close> when the result is out of range, \<open>0.0\<close> when
  it underflows, the square otherwise.
\<close>

definition py_pow2 :: "real \<Rightarrow> error + real" where
  "py_pow2 a =
     (if FLOAT_OVERFLOW \<le> a\<^sup>2 then Inl OverflowError
      else if a\<^sup>2 \<le> FLOAT_UNDERFLOW then Inr 0
      else Inr (a\<^sup>2))"

section \<open>q1.py: string rotation\<close>

text \<open>
  \<open>sep.join(parts)\<close>: the parts, with the separator between neighbours. Iterating a
  Python string yields its characters as one-character strings (\<open>chars\<close>).
\<close>

fun join :: "string \<Rightarrow> string list \<Rightarrow> string" where
  "join sep [] = []"
| "join sep [p] = p"
| "join sep (p # q # ps) = p @ sep @ join sep (q # ps)"

definition chars :: "string \<Rightarrow> string list" where
  "chars s = map (\<lambda>c. [c]) s"

definition newline :: string where
  "newline = [CHR 0x0A]"

definition string_rotation :: "string \<Rightarrow> int \<Rightarrow> error + string" where
  "string_rotation s angle =
     (if angle = 0 then Inr s
      else if angle = 90 then Inr (join newline (rev (chars s)))
      else if angle = 180 then Inr (join [] (rev (chars s)))
      else if angle = 270 then Inr (join newline (chars s))
      else Inl (Exception ''Invalid angle''))"

section \<open>q2.py: vectors, lines, planes, pyramids\<close>

definition EPSILON :: real where
  "EPSILON = 1 / 100000"

record Vector3 =
  x :: real
  y :: real
  z :: real

definition cross_product :: "Vector3 \<Rightarrow> Vector3 \<Rightarrow> Vector3" where
  "cross_product self other =
     \<lparr>x = y self * z other - z self * y other,
      y = z self * x other - x self * z other,
      z = x self * y other - y self * x other\<rparr>"

definition dot_product :: "Vector3 \<Rightarrow> Vector3 \<Rightarrow> real" where
  "dot_product self other = x self * x other + y self * y other + z self * z other"

text \<open>The operators \<open>__sub__\<close>, \<open>__add__\<close> and \<open>__mul__\<close> (vector times scalar).\<close>

definition vsub :: "Vector3 \<Rightarrow> Vector3 \<Rightarrow> Vector3" where
  "vsub self other = \<lparr>x = x self - x other, y = y self - y other, z = z self - z other\<rparr>"

definition vadd :: "Vector3 \<Rightarrow> Vector3 \<Rightarrow> Vector3" where
  "vadd self other = \<lparr>x = x self + x other, y = y self + y other, z = z self + z other\<rparr>"

definition vmul :: "Vector3 \<Rightarrow> real \<Rightarrow> Vector3" where
  "vmul self other = \<lparr>x = x self * other, y = y self * other, z = z self * other\<rparr>"

text \<open>
  \<open>magnitude\<close> squares the three components in turn, so it raises \<open>OverflowError\<close> as
  soon as one square overflows. \<open>math.sqrt\<close> raises on a negative argument only, and a
  sum of three squares is never negative.
\<close>

definition magnitude :: "Vector3 \<Rightarrow> error + real" where
  "magnitude self =
     (case py_pow2 (x self) of
        Inl e \<Rightarrow> Inl e
      | Inr xx \<Rightarrow>
     (case py_pow2 (y self) of
        Inl e \<Rightarrow> Inl e
      | Inr yy \<Rightarrow>
     (case py_pow2 (z self) of
        Inl e \<Rightarrow> Inl e
      | Inr zz \<Rightarrow> Inr (sqrt (xx + yy + zz)))))"

record Line =
  point1 :: Vector3
  direction :: Vector3

definition direction_vector :: "Line \<Rightarrow> Vector3" where
  "direction_vector self = direction self"

text \<open>Indexing a 3-tuple: \<open>t[0]\<close>, \<open>t[1]\<close>, \<open>t[2]\<close>.\<close>

definition at0 :: "'a \<times> 'a \<times> 'a \<Rightarrow> 'a" where
  "at0 t = fst t"

definition at1 :: "'a \<times> 'a \<times> 'a \<Rightarrow> 'a" where
  "at1 t = fst (snd t)"

definition at2 :: "'a \<times> 'a \<times> 'a \<Rightarrow> 'a" where
  "at2 t = snd (snd t)"

record Plane =
  vertices :: "Vector3 \<times> Vector3 \<times> Vector3"
  normal_v :: Vector3

text \<open>The constructor \<open>Plane.__init__\<close>: it stores the vertices and derives the normal.\<close>

definition Plane_init :: "Vector3 \<times> Vector3 \<times> Vector3 \<Rightarrow> Plane" where
  "Plane_init vs =
     \<lparr>vertices = vs,
      normal_v = cross_product (vsub (at1 vs) (at0 vs)) (vsub (at2 vs) (at0 vs))\<rparr>"

definition normal_vector :: "Plane \<Rightarrow> Vector3" where
  "normal_vector self = normal_v self"

text \<open>
  \<open>itertools.combinations(xs, k)\<close>: the \<open>k\<close>-element subsequences of \<open>xs\<close>, in
  lexicographic order of their positions.
\<close>

fun combinations :: "'a list \<Rightarrow> nat \<Rightarrow> 'a list list" where
  "combinations xs 0 = [[]]"
| "combinations [] (Suc k) = []"
| "combinations (a # xs) (Suc k) = map ((#) a) (combinations xs k) @ combinations xs (Suc k)"

text \<open>
  A pyramid holds its 4 vertices as a tuple; \<open>combinations\<close> iterates over it as a
  sequence (\<open>tuple_items\<close>).
\<close>

text \<open>
  The field \<open>vertices\<close> of the class \<open>Pyramid\<close> is written \<open>pyramid_vertices\<close>
  here, apart from the field of the same name of \<open>Plane\<close>.
\<close>

record Pyramid =
  pyramid_vertices :: "Vector3 \<times> Vector3 \<times> Vector3 \<times> Vector3"

definition tuple_items :: "'a \<times> 'a \<times> 'a \<times> 'a \<Rightarrow> 'a list" where
  "tuple_items t = (case t of (a, b, c, d) \<Rightarrow> [a, b, c, d])"

definition faces :: "Pyramid \<Rightarrow> Plane list" where
  "faces self =
     map (\<lambda>f. Plane_init (f ! 0, f ! 1, f ! 2)) (combinations (tuple_items (pyramid_vertices self)) 3)"

section \<open>q2.py: the intersection solver\<close>

definition line_plane_intersection_point :: "Line \<Rightarrow> Plane \<Rightarrow> error + Vector3 option" where
  "line_plane_intersection_point line plane =
     (if \<bar>dot_product (direction_vector line) (normal_vector plane)\<bar> < EPSILON then Inr None
      else if \<bar>dot_product (vsub (at0 (vertices plane)) (point1 line)) (normal_vector plane)\<bar> < EPSILON
      then Inr None
      else
        (case py_truediv
                (dot_product (vsub (at0 (vertices plane)) (point1 line)) (normal_vector plane))
                (dot_product (direction_vector line) (normal_vector plane)) of
           Inl e \<Rightarrow> Inl e
         | Inr d \<Rightarrow> Inr (Some (vadd (point1 line) (vmul (direction_vector line) d)))))"

section \<open>q2.py: the triangle membership test\<close>

text \<open>
  Each quotient evaluates its numerator first: a call of \<open>magnitude\<close>, which may raise
  \<open>OverflowError\<close>, and then divides, which raises \<open>ZeroDivisionError\<close> on a zero
  denominator.
\<close>

definition point_in_triangle :: "Vector3 \<Rightarrow> Plane \<Rightarrow> error + bool" where
  "point_in_triangle point triangle =
     (case magnitude (cross_product
                (vsub (at1 (vertices triangle)) (at0 (vertices triangle)))
                (vsub (at2 (vertices triangle)) (at0 (vertices triangle)))) of
        Inl e \<Rightarrow> Inl e
      | Inr m0 \<Rightarrow>
     (case py_truediv m0 2 of
        Inl e \<Rightarrow> Inl e
      | Inr triangle_area \<Rightarrow>
     (case magnitude (cross_product
                (vsub point (at1 (vertices triangle)))
                (vsub point (at2 (vertices triangle)))) of
        Inl e \<Rightarrow> Inl e
      | Inr m1 \<Rightarrow>
     (case py_truediv m1 (2 * triangle_area) of
        Inl e \<Rightarrow> Inl e
      | Inr sub_triangle_1 \<Rightarrow>
     (case magnitude (cross_product
                (vsub point (at2 (vertices triangle)))
                (vsub point (at0 (vertices triangle)))) of
        Inl e \<Rightarrow> Inl e
      | Inr m2 \<Rightarrow>
     (case py_truediv m2 (2 * triangle_area) of
        Inl e \<Rightarrow> Inl e
      | Inr sub_triangle_2 \<Rightarrow>
     (case magnitude (cross_product
                (vsub point (at0 (vertices triangle)))
                (vsub point (at1 (vertices triangle)))) of
        Inl e \<Rightarrow> Inl e
      | Inr m3 \<Rightarrow>
     (case py_truediv m3 (2 * triangle_area) of
        Inl e \<Rightarrow> Inl e
      | Inr sub_triangle_3 \<Rightarrow>
          Inr (list_all (\<lambda>area. 0 \<le> area \<and> area \<le> 1)
                 [sub_triangle_1, sub_triangle_2, sub_triangle_3]
               \<and> sub_triangle_1 + sub_triangle_2 + sub_triangle_3 - 1 < EPSILON)))))))))"

section \<open>q2.py: the pyramid query\<close>

text \<open>
  The \<open>for\<close> loop over the faces: \<open>continue\<close> on no intersection point, \<open>return True\<close>
  at the first accepted one, \<open>return False\<close> after the last face. An exception raised in
  the body ends the loop.
\<close>

fun faces_loop :: "Line \<Rightarrow> Plane list \<Rightarrow> error + bool" where
  "faces_loop line [] = Inr False"
| "faces_loop line (face # rest) =
     (case line_plane_intersection_point line face of
        Inl e \<Rightarrow> Inl e
      | Inr None \<Rightarrow> faces_loop line rest
      | Inr (Some intersection_point) \<Rightarrow>
          (case point_in_triangle intersection_point face of
             Inl e \<Rightarrow> Inl e
           | Inr accepted \<Rightarrow> if accepted then Inr True else faces_loop line rest))"

definition line_intersection_with_pyramid :: "Line \<Rightarrow> Pyramid \<Rightarrow> error + bool" where
  "line_intersection_with_pyramid line pyramid = faces_loop line (faces pyramid)"

section \<open>Vocabulary of the statements\<close>

definition vec :: "real \<Rightarrow> real \<Rightarrow> real \<Rightarrow> Vector3" where
  "vec a b c = \<lparr>x = a, y = b, z = c\<rparr>"

text \<open>
  Following the specification's words, not the code: the magnitude of a vector is
  \<open>sqrt(dot(v, v))\<close>, the area of a triangle is half the magnitude of the cross product
  of two of its edges, and the sub-triangle of a point \<open>p\<close> and two vertices \<open>a\<close> and \<open>b\<close>
  has its edges at \<open>p\<close>. These are exact; they have no range.
\<close>

definition norm3 :: "Vector3 \<Rightarrow> real" where
  "norm3 v = sqrt (dot_product v v)"

definition triangle_area :: "Plane \<Rightarrow> real" where
  "triangle_area t =
     norm3 (cross_product (vsub (at1 (vertices t)) (at0 (vertices t)))
                          (vsub (at2 (vertices t)) (at0 (vertices t)))) / 2"

definition sub_triangle_area :: "Vector3 \<Rightarrow> Vector3 \<Rightarrow> Vector3 \<Rightarrow> real" where
  "sub_triangle_area p a b = norm3 (cross_product (vsub a p) (vsub b p)) / 2"

text \<open>
  The specification's acceptance condition on these exact areas: each of the three
  ratios lies in \<open>[0, 1]\<close>, and their sum satisfies \<open>sum - 1 < EPSILON\<close>.
\<close>

definition area_ratios_ok :: "Vector3 \<Rightarrow> Plane \<Rightarrow> bool" where
  "area_ratios_ok p t =
     (list_all (\<lambda>r. 0 \<le> r \<and> r \<le> 1)
        [sub_triangle_area p (at1 (vertices t)) (at2 (vertices t)) / triangle_area t,
         sub_triangle_area p (at2 (vertices t)) (at0 (vertices t)) / triangle_area t,
         sub_triangle_area p (at0 (vertices t)) (at1 (vertices t)) / triangle_area t]
      \<and> sub_triangle_area p (at1 (vertices t)) (at2 (vertices t)) / triangle_area t
        + sub_triangle_area p (at2 (vertices t)) (at0 (vertices t)) / triangle_area t
        + sub_triangle_area p (at0 (vertices t)) (at1 (vertices t)) / triangle_area t - 1
        < EPSILON)"

text \<open>
  Three points are collinear when the first two coincide or the third lies on the line
  through them.
\<close>

definition collinear3 :: "Vector3 \<Rightarrow> Vector3 \<Rightarrow> Vector3 \<Rightarrow> bool" where
  "collinear3 a b c = (b = a \<or> (\<exists>k. c = vadd a (vmul (vsub b a) k)))"

text \<open>
  The four vectors whose magnitude \<open>point_in_triangle\<close> computes: the triangle's normal
  and the cross products of the edges from the point to two vertices.
\<close>

definition normal_of :: "Plane \<Rightarrow> Vector3" where
  "normal_of t =
     cross_product (vsub (at1 (vertices t)) (at0 (vertices t)))
                   (vsub (at2 (vertices t)) (at0 (vertices t)))"

definition sub_cross :: "Vector3 \<Rightarrow> Vector3 \<Rightarrow> Vector3 \<Rightarrow> Vector3" where
  "sub_cross p a b = cross_product (vsub p a) (vsub p b)"

text \<open>
  A face yields an accepted intersection point: the solver returns a point and the
  membership test returns \<open>True\<close> on it. The body of the loop faults on a face when
  one of the two calls raises.
\<close>

definition accepts :: "Line \<Rightarrow> Plane \<Rightarrow> bool" where
  "accepts line face =
     (case line_plane_intersection_point line face of
        Inl e \<Rightarrow> False
      | Inr None \<Rightarrow> False
      | Inr (Some intersection_point) \<Rightarrow> point_in_triangle intersection_point face = Inr True)"


text \<open>
  A bound on the coordinates of a vector. With the coordinates of the point and of the
  vertices within \<open>coordinate_bound\<close>, no difference, product or sum of
  \<open>point_in_triangle\<close> leaves the range of the floats.
\<close>

definition coords_within :: "real \<Rightarrow> Vector3 \<Rightarrow> bool" where
  "coords_within B v = (\<bar>x v\<bar> \<le> B \<and> \<bar>y v\<bar> \<le> B \<and> \<bar>z v\<bar> \<le> B)"

definition coordinate_bound :: real where
  "coordinate_bound = 2 ^ 250"

text \<open>A component whose square is a float in range, computed exactly.\<close>

definition in_float_range :: "real \<Rightarrow> bool" where
  "in_float_range c = (c = 0 \<or> (1 / 2 ^ 500 \<le> \<bar>c\<bar> \<and> \<bar>c\<bar> \<le> 2 ^ 500))"

subsection \<open>Concrete inputs\<close>

text \<open>A line pointing up from the origin and a plane below it: the solution has \<open>d = -1\<close>.\<close>

definition below_line :: Line where
  "below_line = \<lparr>point1 = vec 0 0 0, direction = vec 0 0 1\<rparr>"

definition below_plane :: Plane where
  "below_plane = Plane_init (vec 0 0 (- 1), vec 1 0 (- 1), vec 0 1 (- 1))"

text \<open>The unit triangle in the plane \<open>z = 0\<close>, and a triangle with collinear vertices.\<close>

definition unit_triangle :: Plane where
  "unit_triangle = Plane_init (vec 0 0 0, vec 1 0 0, vec 0 1 0)"

definition flat_triangle :: Plane where
  "flat_triangle = Plane_init (vec 0 0 0, vec 1 0 0, vec 2 0 0)"

text \<open>
  The unit triangle scaled by \<open>2^300\<close> and by \<open>2^-600\<close>: the normal has the component
  \<open>2^600\<close>, whose square overflows, respectively \<open>2^-1200\<close>, whose square underflows.
\<close>

definition big_triangle :: Plane where
  "big_triangle = Plane_init (vec 0 0 0, vec (2 ^ 300) 0 0, vec 0 (2 ^ 300) 0)"

definition tiny_triangle :: Plane where
  "tiny_triangle = Plane_init (vec 0 0 0, vec (1 / 2 ^ 600) 0 0, vec 0 (1 / 2 ^ 600) 0)"



text \<open>The two scenarios of the script's main block (lines 150 to 162 of \<open>q2.py\<close>).\<close>

definition main_line :: Line where
  "main_line = \<lparr>point1 = vec 0 0 0, direction = vec 1 1 1\<rparr>"

definition main_pyramid :: Pyramid where
  "main_pyramid = \<lparr>pyramid_vertices = (vec 0 0 0, vec 1 0 0, vec 0 1 0, vec 1 1 1)\<rparr>"

definition main_pyramid2 :: Pyramid where
  "main_pyramid2 = \<lparr>pyramid_vertices = (vec 0 0 0, vec 1 0 0, vec 0 1 0, vec 0 0 (- 1))\<rparr>"




section \<open>Basic facts\<close>

lemma faces_list:
  "faces \<lparr>pyramid_vertices = (v0, v1, v2, v3)\<rparr> =
     [Plane_init (v0, v1, v2), Plane_init (v0, v1, v3),
      Plane_init (v0, v2, v3), Plane_init (v1, v2, v3)]"
  by (simp add: faces_def tuple_items_def numeral_3_eq_3)

section \<open>Face enumeration\<close>

lemma combinations_map: "combinations (map f xs) k = map (map f) (combinations xs k)"
  by (induction xs k rule: combinations.induct) simp_all

lemma combinations_4_3:
  "combinations [a, b, c, d] 3 = [[a, b, c], [a, b, d], [a, c, d], [b, c, d]]"
  by (simp add: numeral_3_eq_3)

lemma set_neq_by_elem: "a \<in> A \<Longrightarrow> a \<notin> B \<Longrightarrow> A \<noteq> B"
  by blast

lemma index_subsets_distinct:
  "distinct (map set [[0, 1, 2], [0, 1, 3], [0, 2, 3], [1, 2, 3 :: nat]])"
proof -
  have "{0, 1, 2} \<noteq> {0, 1, 3 :: nat}"
    by (rule set_neq_by_elem [of 2]; simp)
  moreover have "{0, 1, 2} \<noteq> {0, 2, 3 :: nat}"
    by (rule set_neq_by_elem [of 1]; simp)
  moreover have "{0, 1, 2} \<noteq> {1, 2, 3 :: nat}"
    by (rule set_neq_by_elem [of 0]; simp)
  moreover have "{0, 1, 3} \<noteq> {0, 2, 3 :: nat}"
    by (rule set_neq_by_elem [of 1]; simp)
  moreover have "{0, 1, 3} \<noteq> {1, 2, 3 :: nat}"
    by (rule set_neq_by_elem [of 0]; simp)
  moreover have "{0, 2, 3} \<noteq> {1, 2, 3 :: nat}"
    by (rule set_neq_by_elem [of 0]; simp)
  ultimately show ?thesis by simp
qed

lemma index_subsets_card:
  "list_all (\<lambda>f. card (set f) = 3) [[0, 1, 2], [0, 1, 3], [0, 2, 3], [1, 2, 3 :: nat]]"
  by simp

text \<open>
  C4. For a pyramid with vertices \<open>(v0, v1, v2, v3)\<close>, \<open>faces\<close> returns exactly 4 planes,
  built by the constructor from the vertex triples at the positions \<open>{0,1,2}\<close>,
  \<open>{0,1,3}\<close>, \<open>{0,2,3}\<close>, \<open>{1,2,3}\<close>, in this order. These are the position lists that
  \<open>combinations\<close> enumerates; each has 3 distinct positions, and as sets they are
  pairwise different, so no subset is produced twice.
\<close>

theorem faces_four_subsets_in_order:
  "faces \<lparr>pyramid_vertices = (v0, v1, v2, v3)\<rparr> =
     [Plane_init (v0, v1, v2), Plane_init (v0, v1, v3),
      Plane_init (v0, v2, v3), Plane_init (v1, v2, v3)]
   \<and> length (faces \<lparr>pyramid_vertices = (v0, v1, v2, v3)\<rparr>) = 4
   \<and> faces \<lparr>pyramid_vertices = (v0, v1, v2, v3)\<rparr> =
       map (\<lambda>f. Plane_init ([v0, v1, v2, v3] ! (f ! 0), [v0, v1, v2, v3] ! (f ! 1),
                              [v0, v1, v2, v3] ! (f ! 2)))
         (combinations [0, 1, 2, 3] 3)
   \<and> combinations [0, 1, 2, 3 :: nat] 3 = [[0, 1, 2], [0, 1, 3], [0, 2, 3], [1, 2, 3]]
   \<and> distinct (map set (combinations [0, 1, 2, 3 :: nat] 3))
   \<and> list_all (\<lambda>f. card (set f) = 3) (combinations [0, 1, 2, 3 :: nat] 3)"
proof -
  have "faces \<lparr>pyramid_vertices = (v0, v1, v2, v3)\<rparr> =
     [Plane_init (v0, v1, v2), Plane_init (v0, v1, v3),
      Plane_init (v0, v2, v3), Plane_init (v1, v2, v3)]"
    by (simp only: faces_list)
  moreover have "faces \<lparr>pyramid_vertices = (v0, v1, v2, v3)\<rparr> =
       map (\<lambda>f. Plane_init ([v0, v1, v2, v3] ! (f ! 0), [v0, v1, v2, v3] ! (f ! 1),
                              [v0, v1, v2, v3] ! (f ! 2)))
         (combinations [0, 1, 2, 3] 3)"
    by (simp add: faces_list combinations_4_3)
  moreover have "distinct (map set (combinations [0, 1, 2, 3 :: nat] 3))"
    by (simp only: combinations_4_3 index_subsets_distinct)
  moreover have "list_all (\<lambda>f. card (set f) = 3) (combinations [0, 1, 2, 3 :: nat] 3)"
    by (simp only: combinations_4_3 index_subsets_card)
  ultimately show ?thesis
    by (simp add: combinations_4_3)
qed

section \<open>The plane's normal\<close>


section \<open>String rotation\<close>

text \<open>
  C10. For every string \<open>s\<close>, \<open>string_rotation s angle\<close> returns a string exactly when
  \<open>angle\<close> is one of 0, 90, 180, 270, and raises the exception \<open>Invalid angle\<close> exactly
  for every other angle.
\<close>

theorem string_rotation_accepts_four_angles:
  "((\<exists>r. string_rotation s angle = Inr r) = (angle \<in> {0, 90, 180, 270}))
   \<and> ((string_rotation s angle = Inl (Exception ''Invalid angle'')) =
       (angle \<notin> {0, 90, 180, 270}))"
  by (simp add: string_rotation_def)

theorem string_rotation_accepts_four_angles_witness:
  "string_rotation ''allo'' 0 = Inr ''allo''
   \<and> string_rotation ''allo'' 90 =
       Inr [CHR ''o'', CHR 0x0A, CHR ''l'', CHR 0x0A, CHR ''l'', CHR 0x0A, CHR ''a'']
   \<and> string_rotation ''allo'' 180 = Inr ''olla''
   \<and> string_rotation ''allo'' 270 =
       Inr [CHR ''a'', CHR 0x0A, CHR ''l'', CHR 0x0A, CHR ''l'', CHR 0x0A, CHR ''o'']
   \<and> string_rotation ''allo'' 45 = Inl (Exception ''Invalid angle'')"
  using string_rotation_accepts_four_angles [of "''allo''" 90]
    string_rotation_accepts_four_angles [of "''allo''" 45]
  by (simp add: string_rotation_def chars_def newline_def)

section \<open>The intersection solver\<close>

lemma EPSILON_pos: "0 < EPSILON"
  by (simp add: EPSILON_def)

text \<open>
  The guarded division never faults: past the first check the denominator is at least
  \<open>EPSILON\<close> in absolute value.
\<close>

lemma solver_result:
  "line_plane_intersection_point l pl =
     (if \<bar>dot_product (direction l) (normal_v pl)\<bar> < EPSILON
         \<or> \<bar>dot_product (vsub (at0 (vertices pl)) (point1 l)) (normal_v pl)\<bar> < EPSILON
      then Inr None
      else Inr (Some (vadd (point1 l) (vmul (direction l)
             (dot_product (vsub (at0 (vertices pl)) (point1 l)) (normal_v pl)
              / dot_product (direction l) (normal_v pl))))))"
proof -
  have "dot_product (direction l) (normal_v pl) \<noteq> 0"
    if "\<not> \<bar>dot_product (direction l) (normal_v pl)\<bar> < EPSILON"
    using that EPSILON_pos by auto
  then show ?thesis
    by (simp add: line_plane_intersection_point_def py_truediv_def direction_vector_def
        normal_vector_def)
qed

lemma dot_on_plane:
  assumes "dot_product dir n \<noteq> 0"
  shows "dot_product (vsub (vadd p (vmul dir (dot_product (vsub v p) n / dot_product dir n))) v) n
           = 0"
proof -
  have "dot_product (vsub (vadd p (vmul dir k)) v) n
      = k * dot_product dir n - dot_product (vsub v p) n" for k
    by (simp add: dot_product_def vsub_def vadd_def vmul_def algebra_simps)
  then show ?thesis using assms by simp
qed

lemma below_solver:
  "line_plane_intersection_point below_line below_plane = Inr (Some (vec 0 0 (- 1)))"
  by (simp add: solver_result below_line_def below_plane_def Plane_init_def at0_def at1_def
      at2_def cross_product_def dot_product_def vsub_def vadd_def vmul_def vec_def EPSILON_def)

text \<open>
  C2. \<open>line_plane_intersection_point\<close> returns \<open>None\<close> exactly when
  \<open>|direction . normal| < EPSILON\<close> or \<open>|(vertex0 - linePoint) . normal| < EPSILON\<close>. In
  every other case the denominator is nonzero and the result is the point
  \<open>linePoint + d * direction\<close> with \<open>d\<close> the quotient of the two dot products, whatever
  the sign of \<open>d\<close>. \<open>EPSILON\<close> is \<open>1e-5\<close>.
\<close>

theorem solver_none_iff_guard:
  "EPSILON = 1 / 100000
   \<and> ((line_plane_intersection_point l pl = Inr None) =
      (\<bar>dot_product (direction l) (normal_v pl)\<bar> < EPSILON
       \<or> \<bar>dot_product (vsub (at0 (vertices pl)) (point1 l)) (normal_v pl)\<bar> < EPSILON))
   \<and> (\<not> (\<bar>dot_product (direction l) (normal_v pl)\<bar> < EPSILON
       \<or> \<bar>dot_product (vsub (at0 (vertices pl)) (point1 l)) (normal_v pl)\<bar> < EPSILON) \<longrightarrow>
       dot_product (direction l) (normal_v pl) \<noteq> 0
       \<and> line_plane_intersection_point l pl =
         Inr (Some (vadd (point1 l) (vmul (direction l)
             (dot_product (vsub (at0 (vertices pl)) (point1 l)) (normal_v pl)
              / dot_product (direction l) (normal_v pl))))))"
proof -
  have "EPSILON = 1 / 100000"
    by (simp add: EPSILON_def)
  moreover have "dot_product (direction l) (normal_v pl) \<noteq> 0"
    if "\<not> \<bar>dot_product (direction l) (normal_v pl)\<bar> < EPSILON"
    using that EPSILON_pos by auto
  ultimately show ?thesis
    by (simp add: solver_result)
qed

text \<open>At the plane below the line the scalar is \<open>-1\<close>, and the point is reported.\<close>

theorem solver_none_iff_guard_witness:
  "dot_product (vsub (at0 (vertices below_plane)) (point1 below_line)) (normal_v below_plane)
     / dot_product (direction below_line) (normal_v below_plane) = - 1
   \<and> line_plane_intersection_point below_line below_plane = Inr (Some (vec 0 0 (- 1)))"
  using solver_none_iff_guard [of below_line below_plane]
  by (simp add: below_line_def below_plane_def Plane_init_def at0_def at1_def at2_def
      cross_product_def dot_product_def vsub_def vadd_def vmul_def vec_def EPSILON_def)

text \<open>
  C7. Whenever \<open>line_plane_intersection_point\<close> returns a point \<open>p\<close>, the denominator
  \<open>direction . normal\<close> is nonzero, \<open>p = linePoint + d * direction\<close> for
  \<open>d = ((vertex0 - linePoint) . normal) / (direction . normal)\<close>, and \<open>p\<close> satisfies the
  plane equation \<open>(p - vertex0) . normal = 0\<close>.
\<close>

theorem solver_point_on_plane:
  assumes "line_plane_intersection_point l pl = Inr (Some p)"
  shows "dot_product (direction l) (normal_v pl) \<noteq> 0
    \<and> p = vadd (point1 l) (vmul (direction l)
             (dot_product (vsub (at0 (vertices pl)) (point1 l)) (normal_v pl)
              / dot_product (direction l) (normal_v pl)))
    \<and> dot_product (vsub p (at0 (vertices pl))) (normal_v pl) = 0"
proof -
  from assms have g: "\<not> \<bar>dot_product (direction l) (normal_v pl)\<bar> < EPSILON"
    and p: "p = vadd (point1 l) (vmul (direction l)
             (dot_product (vsub (at0 (vertices pl)) (point1 l)) (normal_v pl)
              / dot_product (direction l) (normal_v pl)))"
    by (auto simp: solver_result split: if_splits)
  from g EPSILON_pos have nz: "dot_product (direction l) (normal_v pl) \<noteq> 0" by auto
  show ?thesis using nz p dot_on_plane [OF nz] by simp
qed

theorem solver_point_on_plane_witness:
  "dot_product (direction below_line) (normal_v below_plane) \<noteq> 0
   \<and> vec 0 0 (- 1) = vadd (point1 below_line) (vmul (direction below_line)
        (dot_product (vsub (at0 (vertices below_plane)) (point1 below_line)) (normal_v below_plane)
         / dot_product (direction below_line) (normal_v below_plane)))
   \<and> dot_product (vsub (vec 0 0 (- 1)) (at0 (vertices below_plane))) (normal_v below_plane) = 0"
  using solver_point_on_plane [OF below_solver] by blast

section \<open>The range of the floats\<close>

lemma FLOAT_UNDERFLOW_pos: "0 < FLOAT_UNDERFLOW"
  by (simp add: FLOAT_UNDERFLOW_def)

lemma FLOAT_OVERFLOW_large: "2 ^ 1000 < FLOAT_OVERFLOW"
proof -
  have "(2::real) ^ 1024 = 2 ^ 970 * 2 ^ 54" "(2::real) ^ 1000 = 2 ^ 970 * 2 ^ 30"
    by (simp_all flip: power_add)
  then have "FLOAT_OVERFLOW - 2 ^ 1000 = 2 ^ 970 * ((2::real) ^ 54 - 1 - 2 ^ 30)"
    by (simp add: FLOAT_OVERFLOW_def algebra_simps)
  moreover have "0 < (2::real) ^ 970 * (2 ^ 54 - 1 - 2 ^ 30)"
    by (rule mult_pos_pos) simp_all
  ultimately show ?thesis by simp
qed

lemma FLOAT_OVERFLOW_larger: "2 ^ 1006 < FLOAT_OVERFLOW"
proof -
  have "(2::real) ^ 1024 = 2 ^ 970 * 2 ^ 54" "(2::real) ^ 1006 = 2 ^ 970 * 2 ^ 36"
    by (simp_all flip: power_add)
  then have "FLOAT_OVERFLOW - 2 ^ 1006 = 2 ^ 970 * ((2::real) ^ 54 - 1 - 2 ^ 36)"
    by (simp add: FLOAT_OVERFLOW_def algebra_simps)
  moreover have "0 < (2::real) ^ 970 * (2 ^ 54 - 1 - 2 ^ 36)"
    by (rule mult_pos_pos) simp_all
  ultimately show ?thesis by simp
qed

lemma FLOAT_OVERFLOW_le: "FLOAT_OVERFLOW \<le> 2 ^ 1024"
  by (simp add: FLOAT_OVERFLOW_def)

lemma FLOAT_UNDERFLOW_small: "FLOAT_UNDERFLOW < 1 / 2 ^ 1000"
  unfolding FLOAT_UNDERFLOW_def
  by (rule divide_strict_left_mono) (simp_all add: power_strict_increasing)

lemma FLOAT_UNDERFLOW_less_OVERFLOW: "FLOAT_UNDERFLOW < FLOAT_OVERFLOW"
proof -
  have "FLOAT_UNDERFLOW < 1"
    by (simp add: FLOAT_UNDERFLOW_def)
  also have "(1::real) \<le> 2 ^ 1000"
    by simp
  finally show ?thesis using FLOAT_OVERFLOW_large by simp
qed

lemma py_pow2_zero: "py_pow2 0 = Inr 0"
  using FLOAT_UNDERFLOW_pos FLOAT_OVERFLOW_large
  by (simp add: py_pow2_def not_le)

lemma py_pow2_mid:
  assumes "1 / 2 ^ 500 \<le> \<bar>a\<bar>" and "\<bar>a\<bar> \<le> 2 ^ 500"
  shows "py_pow2 a = Inr (a\<^sup>2)"
proof -
  have "(1 / 2 ^ 500)\<^sup>2 \<le> \<bar>a\<bar>\<^sup>2"
    using assms(1) by (intro power_mono) simp_all
  then have lo: "1 / 2 ^ 1000 \<le> a\<^sup>2"
    by (simp add: power_divide flip: power_mult)
  have "\<bar>a\<bar>\<^sup>2 \<le> (2 ^ 500)\<^sup>2"
    using assms(2) by (intro power_mono) simp_all
  then have hi: "a\<^sup>2 \<le> 2 ^ 1000"
    by (simp flip: power_mult)
  from lo hi FLOAT_UNDERFLOW_small FLOAT_OVERFLOW_large show ?thesis
    by (simp add: py_pow2_def)
qed

lemma py_pow2_tiny:
  assumes "\<bar>a\<bar> \<le> 1 / 2 ^ 538"
  shows "py_pow2 a = Inr 0"
proof -
  have "\<bar>a\<bar>\<^sup>2 \<le> (1 / 2 ^ 538)\<^sup>2"
    using assms by (intro power_mono) simp_all
  then have "a\<^sup>2 \<le> 1 / 2 ^ 1076"
    by (simp add: power_divide flip: power_mult)
  also have "\<dots> \<le> FLOAT_UNDERFLOW"
    unfolding FLOAT_UNDERFLOW_def
    by (rule divide_left_mono) (simp_all add: power_increasing)
  finally have "a\<^sup>2 \<le> FLOAT_UNDERFLOW" .
  with FLOAT_UNDERFLOW_less_OVERFLOW show ?thesis
    by (simp add: py_pow2_def)
qed

lemma py_pow2_huge:
  assumes "2 ^ 512 \<le> \<bar>a\<bar>"
  shows "py_pow2 a = Inl OverflowError"
proof -
  have "(2 ^ 512)\<^sup>2 \<le> \<bar>a\<bar>\<^sup>2"
    using assms by (intro power_mono) simp_all
  then have "2 ^ 1024 \<le> a\<^sup>2"
    by (simp flip: power_mult)
  with FLOAT_OVERFLOW_le show ?thesis
    by (simp add: py_pow2_def)
qed

lemma py_pow2_no_overflow:
  assumes "\<bar>a\<bar> \<le> 2 ^ 503"
  shows "\<exists>s. py_pow2 a = Inr s"
proof -
  have "\<bar>a\<bar>\<^sup>2 \<le> (2 ^ 503)\<^sup>2"
    using assms by (intro power_mono) simp_all
  then have "a\<^sup>2 \<le> 2 ^ 1006"
    by (simp flip: power_mult)
  with FLOAT_OVERFLOW_larger show ?thesis
    by (simp add: py_pow2_def)
qed

lemma py_pow2_exact: "in_float_range c \<Longrightarrow> py_pow2 c = Inr (c\<^sup>2)"
  by (auto simp: in_float_range_def py_pow2_zero py_pow2_mid)

lemma in_float_range_simple:
  "in_float_range 0"
  "1 / 1024 \<le> \<bar>c\<bar> \<Longrightarrow> \<bar>c\<bar> \<le> 1024 \<Longrightarrow> in_float_range c"
proof -
  show "in_float_range 0"
    by (simp add: in_float_range_def)
  assume c: "1 / 1024 \<le> \<bar>c\<bar>" "\<bar>c\<bar> \<le> 1024"
  have "(1::real) / 2 ^ 500 \<le> 1 / 2 ^ 10"
    by (rule divide_left_mono) (simp_all add: power_increasing)
  moreover have "(2::real) ^ 10 \<le> 2 ^ 500"
    by (rule power_increasing) simp_all
  ultimately show "in_float_range c"
    using c by (simp add: in_float_range_def)
qed

section \<open>The magnitude\<close>


lemma py_pow2_nonneg: "py_pow2 a = Inr s \<Longrightarrow> 0 \<le> s"
  by (auto simp: py_pow2_def split: if_splits)


lemma magnitude_nonneg: "magnitude v = Inr m \<Longrightarrow> 0 \<le> m"
  by (auto simp: magnitude_def split: sum.splits dest!: py_pow2_nonneg)

text \<open>Where no square leaves the range, the code's magnitude is the exact one.\<close>

lemma magnitude_exact:
  assumes "in_float_range (x v)" and "in_float_range (y v)" and "in_float_range (z v)"
  shows "magnitude v = Inr (norm3 v)"
  using assms
  by (simp add: magnitude_def py_pow2_exact norm3_def dot_product_def power2_eq_square)

subsection \<open>Bounded coordinates\<close>

lemma magnitude_within:
  assumes "coords_within (2 ^ 503) v"
  shows "\<exists>m. magnitude v = Inr m"
proof -
  from assms obtain xx yy zz
    where "py_pow2 (x v) = Inr xx" "py_pow2 (y v) = Inr yy" "py_pow2 (z v) = Inr zz"
    unfolding coords_within_def using py_pow2_no_overflow by blast
  then show ?thesis by (simp add: magnitude_def)
qed

lemma vsub_within:
  assumes "coords_within B u" and "coords_within B v"
  shows "coords_within (2 * B) (vsub u v)"
  using assms by (auto simp: coords_within_def vsub_def)

lemma product_bound:
  fixes a b c d :: real
  assumes "\<bar>a\<bar> \<le> M" and "\<bar>b\<bar> \<le> M" and "\<bar>c\<bar> \<le> M" and "\<bar>d\<bar> \<le> M"
  shows "\<bar>a * b - c * d\<bar> \<le> 2 * (M * M)"
proof -
  have "\<bar>a * b\<bar> \<le> M * M"
    unfolding abs_mult using assms by (intro mult_mono) auto
  moreover have "\<bar>c * d\<bar> \<le> M * M"
    unfolding abs_mult using assms by (intro mult_mono) auto
  ultimately show ?thesis
    using abs_triangle_ineq4 [of "a * b" "c * d"] by linarith
qed

lemma cross_within:
  assumes "coords_within M u" and "coords_within M w"
  shows "coords_within (2 * (M * M)) (cross_product u w)"
  using assms by (simp add: coords_within_def cross_product_def product_bound)

lemma bound_power: "2 * (2 * coordinate_bound * (2 * coordinate_bound)) = 2 ^ 503"
proof -
  have "(2::real) ^ 503 = 2 ^ 3 * (2 ^ 250 * 2 ^ 250)"
    by (simp flip: power_add)
  then show ?thesis by (simp add: coordinate_bound_def)
qed

text \<open>
  Within the bound the components of a cross product of two differences are at most
  \<open>2^503\<close>, and no square overflows.
\<close>

lemma cross_of_differences_within:
  assumes "coords_within coordinate_bound a" and "coords_within coordinate_bound b"
    and "coords_within coordinate_bound c" and "coords_within coordinate_bound d"
  shows "\<exists>m. magnitude (cross_product (vsub a b) (vsub c d)) = Inr m"
proof -
  have "coords_within (2 * (2 * coordinate_bound * (2 * coordinate_bound)))
      (cross_product (vsub a b) (vsub c d))"
    by (intro cross_within vsub_within assms)
  then show ?thesis
    unfolding bound_power by (rule magnitude_within)
qed

lemma small_within:
  assumes "\<bar>a\<bar> \<le> 2" and "\<bar>b\<bar> \<le> 2" and "\<bar>c\<bar> \<le> 2"
  shows "coords_within coordinate_bound (vec a b c)"
proof -
  have "(2::real) ^ 1 \<le> 2 ^ 250"
    by (rule power_increasing) simp_all
  then have "2 \<le> coordinate_bound"
    by (simp add: coordinate_bound_def)
  with assms show ?thesis
    by (simp add: coords_within_def vec_def)
qed

lemma norm3_zero_iff: "norm3 v = 0 \<longleftrightarrow> x v = 0 \<and> y v = 0 \<and> z v = 0"
proof -
  have "x v * x v + y v * y v + z v * z v = 0 \<longleftrightarrow> x v = 0 \<and> y v = 0 \<and> z v = 0"
    by (simp add: add_nonneg_eq_0_iff)
  then show ?thesis by (simp add: norm3_def dot_product_def)
qed

section \<open>The triangle membership test\<close>

text \<open>The code takes the edges from the point to the vertices with the opposite sign.\<close>

lemma cross_from_point:
  "cross_product (vsub p a) (vsub p b) = cross_product (vsub a p) (vsub b p)"
  by (simp add: cross_product_def vsub_def algebra_simps)

text \<open>The ways \<open>point_in_triangle\<close> ends, by the results of its four magnitudes.\<close>

lemma membership_result:
  assumes "magnitude (normal_of t) = Inr m0" and "m0 \<noteq> 0"
    and "magnitude (sub_cross p (at1 (vertices t)) (at2 (vertices t))) = Inr m1"
    and "magnitude (sub_cross p (at2 (vertices t)) (at0 (vertices t))) = Inr m2"
    and "magnitude (sub_cross p (at0 (vertices t)) (at1 (vertices t))) = Inr m3"
  shows "point_in_triangle p t =
     Inr (list_all (\<lambda>area. 0 \<le> area \<and> area \<le> 1) [m1 / m0, m2 / m0, m3 / m0]
          \<and> m1 / m0 + m2 / m0 + m3 / m0 - 1 < EPSILON)"
  using assms
  by (simp add: point_in_triangle_def py_truediv_def normal_of_def sub_cross_def)

lemma membership_zero:
  assumes "magnitude (normal_of t) = Inr 0"
    and "magnitude (sub_cross p (at1 (vertices t)) (at2 (vertices t))) = Inr m1"
  shows "point_in_triangle p t = Inl ZeroDivisionError"
  using assms
  by (simp add: point_in_triangle_def py_truediv_def normal_of_def sub_cross_def)

lemma membership_overflow:
  "magnitude (normal_of t) = Inl e \<Longrightarrow> point_in_triangle p t = Inl e"
  by (simp add: point_in_triangle_def normal_of_def)


lemma vec_eq_iff: "(u = v) = (x u = x v \<and> y u = y v \<and> z u = z v)" for u v :: Vector3
  by auto

text \<open>The exact area is zero exactly for collinear vertices.\<close>

lemma cross_zero_collinear:
  "norm3 (cross_product (vsub b a) (vsub c a)) = 0 \<longleftrightarrow> collinear3 a b c"
proof
  assume "collinear3 a b c"
  then show "norm3 (cross_product (vsub b a) (vsub c a)) = 0"
    by (auto simp: collinear3_def norm3_zero_iff cross_product_def vsub_def vadd_def vmul_def)
next
  assume m: "norm3 (cross_product (vsub b a) (vsub c a)) = 0"
  define ux uy uz where "ux = x b - x a" and "uy = y b - y a" and "uz = z b - z a"
  define wx wy wz where "wx = x c - x a" and "wy = y c - y a" and "wz = z c - z a"
  from m have e: "uy * wz = uz * wy" "uz * wx = ux * wz" "ux * wy = uy * wx"
    by (simp_all add: norm3_zero_iff cross_product_def vsub_def ux_def uy_def uz_def
        wx_def wy_def wz_def)
  show "collinear3 a b c"
  proof (cases "b = a")
    case True
    then show ?thesis by (simp add: collinear3_def)
  next
    case False
    then have "ux \<noteq> 0 \<or> uy \<noteq> 0 \<or> uz \<noteq> 0"
      by (auto simp: vec_eq_iff ux_def uy_def uz_def)
    then have n: "ux * ux + uy * uy + uz * uz \<noteq> 0"
      by (metis add_nonneg_eq_0_iff zero_le_square mult_eq_0_iff add_nonneg_nonneg)
    define k where "k = (ux * wx + uy * wy + uz * wz) / (ux * ux + uy * uy + uz * uz)"
    have "wx * (ux * ux + uy * uy + uz * uz) = ux * (ux * wx + uy * wy + uz * wz)"
      using e by algebra
    then have kx: "wx = ux * k" using n by (simp add: k_def field_simps)
    have "wy * (ux * ux + uy * uy + uz * uz) = uy * (ux * wx + uy * wy + uz * wz)"
      using e by algebra
    then have ky: "wy = uy * k" using n by (simp add: k_def field_simps)
    have "wz * (ux * ux + uy * uy + uz * uz) = uz * (ux * wx + uy * wy + uz * wz)"
      using e by algebra
    then have kz: "wz = uz * k" using n by (simp add: k_def field_simps)
    have "c = vadd a (vmul (vsub b a) k)"
      using kx ky kz
      by (simp add: vec_eq_iff vadd_def vmul_def vsub_def ux_def uy_def uz_def wx_def wy_def
          wz_def algebra_simps)
    then show ?thesis by (auto simp: collinear3_def)
  qed
qed

lemma area_zero_collinear:
  "triangle_area t = 0 \<longleftrightarrow> collinear3 (at0 (vertices t)) (at1 (vertices t)) (at2 (vertices t))"
  by (simp add: triangle_area_def cross_zero_collinear)

subsection \<open>Triangles in the plane \<open>z = 0\<close>\<close>

lemma init_vertices:
  "at0 (vertices (Plane_init (a, b, c))) = a"
  "at1 (vertices (Plane_init (a, b, c))) = b"
  "at2 (vertices (Plane_init (a, b, c))) = c"
  by (simp_all add: Plane_init_def at0_def at1_def at2_def)

lemma planar_cross:
  "cross_product (vsub (vec a1 a2 0) (vec p1 p2 0)) (vsub (vec b1 b2 0) (vec p1 p2 0))
     = vec 0 0 ((a1 - p1) * (b2 - p2) - (a2 - p2) * (b1 - p1))"
  by (simp add: cross_product_def vsub_def vec_def)

lemma planar_normal:
  "normal_of (Plane_init (vec p1 p2 0, vec a1 a2 0, vec b1 b2 0))
     = vec 0 0 ((a1 - p1) * (b2 - p2) - (a2 - p2) * (b1 - p1))"
  by (simp add: normal_of_def init_vertices planar_cross)

lemma planar_sub_cross:
  "sub_cross (vec p1 p2 0) (vec a1 a2 0) (vec b1 b2 0)
     = vec 0 0 ((a1 - p1) * (b2 - p2) - (a2 - p2) * (b1 - p1))"
  by (simp add: sub_cross_def cross_from_point planar_cross)

lemma norm3_axis: "norm3 (vec 0 0 c) = \<bar>c\<bar>"
  by (simp add: norm3_def dot_product_def vec_def)

lemma magnitude_axis:
  "magnitude (vec 0 0 c) = (case py_pow2 c of Inl e \<Rightarrow> Inl e | Inr zz \<Rightarrow> Inr (sqrt zz))"
  by (simp add: magnitude_def vec_def py_pow2_zero split: sum.splits)

lemma magnitude_axis_exact: "in_float_range c \<Longrightarrow> magnitude (vec 0 0 c) = Inr \<bar>c\<bar>"
  by (simp add: magnitude_axis py_pow2_exact)

lemma magnitude_axis_tiny: "\<bar>c\<bar> \<le> 1 / 2 ^ 538 \<Longrightarrow> magnitude (vec 0 0 c) = Inr 0"
  by (simp add: magnitude_axis py_pow2_tiny)

lemma magnitude_axis_huge: "2 ^ 512 \<le> \<bar>c\<bar> \<Longrightarrow> magnitude (vec 0 0 c) = Inl OverflowError"
  by (simp add: magnitude_axis py_pow2_huge)

lemma planar_triangle_area:
  "triangle_area (Plane_init (vec p1 p2 0, vec a1 a2 0, vec b1 b2 0))
     = \<bar>(a1 - p1) * (b2 - p2) - (a2 - p2) * (b1 - p1)\<bar> / 2"
  by (simp add: triangle_area_def init_vertices planar_cross norm3_axis)

lemma planar_sub_area:
  "sub_triangle_area (vec p1 p2 0) (vec a1 a2 0) (vec b1 b2 0)
     = \<bar>(a1 - p1) * (b2 - p2) - (a2 - p2) * (b1 - p1)\<bar> / 2"
  by (simp add: sub_triangle_area_def planar_cross norm3_axis)

lemma power_facts:
  "(2::real) ^ 300 * 2 ^ 300 = 2 ^ 600"
  "(2::real) ^ 600 * 2 ^ 600 = 2 ^ 1200"
  "(2::real) ^ 512 \<le> 2 ^ 600"
  "(1::real) / 2 ^ 1200 \<le> 1 / 2 ^ 538"
proof -
  show "(2::real) ^ 300 * 2 ^ 300 = 2 ^ 600" "(2::real) ^ 600 * 2 ^ 600 = 2 ^ 1200"
    by (simp_all flip: power_add)
  show "(2::real) ^ 512 \<le> 2 ^ 600"
    by (rule power_increasing) simp_all
  show "(1::real) / 2 ^ 1200 \<le> 1 / 2 ^ 538"
    by (rule divide_left_mono) (simp_all add: power_increasing)
qed

subsection \<open>The membership test and the area ratios\<close>

lemma big_normal: "normal_of big_triangle = vec 0 0 (2 ^ 600)"
  by (simp add: big_triangle_def planar_normal power_facts)

lemma big_membership: "point_in_triangle (vec 0 0 0) big_triangle = Inl OverflowError"
  by (rule membership_overflow) (simp add: big_normal magnitude_axis_huge power_facts)

lemma big_area: "triangle_area big_triangle = 2 ^ 600 / 2"
  by (simp add: big_triangle_def planar_triangle_area power_facts)

lemma big_ratios: "area_ratios_ok (vec 0 0 0) big_triangle"
  by (simp add: area_ratios_ok_def big_area)
    (simp add: big_triangle_def init_vertices planar_sub_area power_facts EPSILON_def)

text \<open>
  C3, as stated, fails. The triangle \<open>(0,0,0), (2^300,0,0), (0,2^300,0)\<close> has a nonzero
  area, and at its vertex \<open>(0,0,0)\<close> the three area ratios are \<open>1, 0, 0\<close>, which satisfy
  the condition; but \<open>point_in_triangle\<close> does not return \<open>True\<close>: squaring the normal's
  component \<open>2^600\<close> raises \<open>OverflowError\<close>.
\<close>

theorem membership_overflow_counterexample:
  "triangle_area big_triangle \<noteq> 0
   \<and> area_ratios_ok (vec 0 0 0) big_triangle
   \<and> point_in_triangle (vec 0 0 0) big_triangle = Inl OverflowError"
  by (simp add: big_area big_ratios big_membership)

lemma bounded_magnitudes:
  assumes "coords_within coordinate_bound p"
    and "coords_within coordinate_bound (at0 (vertices t))"
    and "coords_within coordinate_bound (at1 (vertices t))"
    and "coords_within coordinate_bound (at2 (vertices t))"
  shows "\<exists>m0 m1 m2 m3.
      magnitude (normal_of t) = Inr m0
      \<and> magnitude (sub_cross p (at1 (vertices t)) (at2 (vertices t))) = Inr m1
      \<and> magnitude (sub_cross p (at2 (vertices t)) (at0 (vertices t))) = Inr m2
      \<and> magnitude (sub_cross p (at0 (vertices t)) (at1 (vertices t))) = Inr m3"
  unfolding normal_of_def sub_cross_def
  using cross_of_differences_within [OF assms(3) assms(2) assms(4) assms(2)]
    cross_of_differences_within [OF assms(1) assms(3) assms(1) assms(4)]
    cross_of_differences_within [OF assms(1) assms(4) assms(1) assms(2)]
    cross_of_differences_within [OF assms(1) assms(2) assms(1) assms(3)]
  by blast

text \<open>
  C3, amended. For every point and every triangle whose coordinates are at most
  \<open>2^250\<close> in absolute value, the four magnitudes of \<open>point_in_triangle\<close> are computed
  without an exception, as \<open>m0\<close> for the triangle's normal and \<open>m1, m2, m3\<close> for the three
  sub-triangles. When \<open>m0\<close> is nonzero, \<open>point_in_triangle\<close> returns \<open>True\<close> exactly when
  each of the three ratios of a computed sub-triangle area \<open>m / 2\<close> to the computed area
  \<open>m0 / 2\<close> lies in \<open>[0, 1]\<close> and the sum of the ratios satisfies \<open>sum - 1 < EPSILON\<close>;
  no lower bound on the sum is checked.
\<close>

theorem membership_iff_computed_ratios:
  assumes "coords_within coordinate_bound p"
    and "coords_within coordinate_bound (at0 (vertices t))"
    and "coords_within coordinate_bound (at1 (vertices t))"
    and "coords_within coordinate_bound (at2 (vertices t))"
  shows "\<exists>m0 m1 m2 m3.
      magnitude (normal_of t) = Inr m0
      \<and> magnitude (sub_cross p (at1 (vertices t)) (at2 (vertices t))) = Inr m1
      \<and> magnitude (sub_cross p (at2 (vertices t)) (at0 (vertices t))) = Inr m2
      \<and> magnitude (sub_cross p (at0 (vertices t)) (at1 (vertices t))) = Inr m3
      \<and> (m0 \<noteq> 0 \<longrightarrow>
           point_in_triangle p t =
             Inr ((0 \<le> (m1 / 2) / (m0 / 2) \<and> (m1 / 2) / (m0 / 2) \<le> 1)
                \<and> (0 \<le> (m2 / 2) / (m0 / 2) \<and> (m2 / 2) / (m0 / 2) \<le> 1)
                \<and> (0 \<le> (m3 / 2) / (m0 / 2) \<and> (m3 / 2) / (m0 / 2) \<le> 1)
                \<and> (m1 / 2) / (m0 / 2) + (m2 / 2) / (m0 / 2) + (m3 / 2) / (m0 / 2) - 1
                    < EPSILON))"
proof -
  from bounded_magnitudes [OF assms] obtain m0 m1 m2 m3
    where m: "magnitude (normal_of t) = Inr m0"
      "magnitude (sub_cross p (at1 (vertices t)) (at2 (vertices t))) = Inr m1"
      "magnitude (sub_cross p (at2 (vertices t)) (at0 (vertices t))) = Inr m2"
      "magnitude (sub_cross p (at0 (vertices t)) (at1 (vertices t))) = Inr m3"
    by blast
  have "point_in_triangle p t =
      Inr ((0 \<le> (m1 / 2) / (m0 / 2) \<and> (m1 / 2) / (m0 / 2) \<le> 1)
         \<and> (0 \<le> (m2 / 2) / (m0 / 2) \<and> (m2 / 2) / (m0 / 2) \<le> 1)
         \<and> (0 \<le> (m3 / 2) / (m0 / 2) \<and> (m3 / 2) / (m0 / 2) \<le> 1)
         \<and> (m1 / 2) / (m0 / 2) + (m2 / 2) / (m0 / 2) + (m3 / 2) / (m0 / 2) - 1
             < EPSILON)"
    if "m0 \<noteq> 0"
    using membership_result [OF m(1) that m(2) m(3) m(4)] by simp
  with m show ?thesis by blast
qed

lemma unit_normal: "magnitude (normal_of unit_triangle) = Inr 1"
  by (simp add: unit_triangle_def planar_normal magnitude_axis_exact in_float_range_simple)

lemma unit_vertices:
  "at0 (vertices unit_triangle) = vec 0 0 0"
  "at1 (vertices unit_triangle) = vec 1 0 0"
  "at2 (vertices unit_triangle) = vec 0 1 0"
  by (simp_all add: unit_triangle_def init_vertices)

lemma unit_inner_subs:
  "magnitude (sub_cross (vec (1 / 4) (1 / 4) 0) (vec 1 0 0) (vec 0 1 0)) = Inr (1 / 2)"
  "magnitude (sub_cross (vec (1 / 4) (1 / 4) 0) (vec 0 1 0) (vec 0 0 0)) = Inr (1 / 4)"
  "magnitude (sub_cross (vec (1 / 4) (1 / 4) 0) (vec 0 0 0) (vec 1 0 0)) = Inr (1 / 4)"
  by (simp_all add: planar_sub_cross magnitude_axis_exact in_float_range_simple)

lemma unit_outer_subs:
  "magnitude (sub_cross (vec 1 1 0) (vec 1 0 0) (vec 0 1 0)) = Inr 1"
  "magnitude (sub_cross (vec 1 1 0) (vec 0 1 0) (vec 0 0 0)) = Inr 1"
  "magnitude (sub_cross (vec 1 1 0) (vec 0 0 0) (vec 1 0 0)) = Inr 1"
  by (simp_all add: planar_sub_cross magnitude_axis_exact in_float_range_simple)

text \<open>
  In the unit triangle the point \<open>(1/4, 1/4, 0)\<close> has the ratios \<open>1/2, 1/4, 1/4\<close> and is
  accepted; the point \<open>(1, 1, 0)\<close> has the ratios \<open>1, 1, 1\<close>, whose sum fails the check.
\<close>

lemma unit_within:
  "coords_within coordinate_bound (at0 (vertices unit_triangle))"
  "coords_within coordinate_bound (at1 (vertices unit_triangle))"
  "coords_within coordinate_bound (at2 (vertices unit_triangle))"
  "coords_within coordinate_bound (vec (1 / 4) (1 / 4) 0)"
  "coords_within coordinate_bound (vec 1 1 0)"
  "coords_within coordinate_bound (vec 1 0 0)"
  by (simp_all add: unit_vertices small_within)

theorem membership_iff_computed_ratios_witness:
  "point_in_triangle (vec (1 / 4) (1 / 4) 0) unit_triangle = Inr True
   \<and> point_in_triangle (vec 1 1 0) unit_triangle = Inr False"
proof -
  from membership_iff_computed_ratios [OF unit_within(4) unit_within(1,2,3)]
  have "point_in_triangle (vec (1 / 4) (1 / 4) 0) unit_triangle = Inr True"
    by (auto simp: unit_normal unit_vertices unit_inner_subs EPSILON_def)
  moreover from membership_iff_computed_ratios [OF unit_within(5) unit_within(1,2,3)]
  have "point_in_triangle (vec 1 1 0) unit_triangle = Inr False"
    by (auto simp: unit_normal unit_vertices unit_outer_subs EPSILON_def)
  ultimately show ?thesis by simp
qed

subsection \<open>Division by zero in the membership test\<close>

lemma tiny_normal: "normal_of tiny_triangle = vec 0 0 (1 / 2 ^ 1200)"
  by (simp add: tiny_triangle_def planar_normal power_facts)

lemma tiny_vertices:
  "at0 (vertices tiny_triangle) = vec 0 0 0"
  "at1 (vertices tiny_triangle) = vec (1 / 2 ^ 600) 0 0"
  "at2 (vertices tiny_triangle) = vec 0 (1 / 2 ^ 600) 0"
  by (simp_all add: tiny_triangle_def init_vertices)

lemma tiny_membership: "point_in_triangle (vec 0 0 0) tiny_triangle = Inl ZeroDivisionError"
proof (rule membership_zero)
  show "magnitude (normal_of tiny_triangle) = Inr 0"
    by (simp add: tiny_normal magnitude_axis_tiny power_facts)
  show "magnitude (sub_cross (vec 0 0 0) (at1 (vertices tiny_triangle))
          (at2 (vertices tiny_triangle))) = Inr 0"
    by (simp add: tiny_vertices planar_sub_cross power_facts magnitude_axis_tiny)
qed

lemma tiny_area: "triangle_area tiny_triangle = (1 / 2 ^ 1200) / 2"
  by (simp add: tiny_triangle_def planar_triangle_area power_facts)

text \<open>
  C5, as stated, fails. The vertices \<open>(0,0,0), (2^-600,0,0), (0,2^-600,0)\<close> are not
  collinear and the triangle's area is not zero, but \<open>point_in_triangle\<close> divides by
  zero: the square of the normal's component \<open>2^-1200\<close> underflows to \<open>0.0\<close>.
\<close>

theorem membership_underflow_counterexample:
  "\<not> collinear3 (at0 (vertices tiny_triangle)) (at1 (vertices tiny_triangle))
       (at2 (vertices tiny_triangle))
   \<and> triangle_area tiny_triangle \<noteq> 0
   \<and> point_in_triangle (vec 0 0 0) tiny_triangle = Inl ZeroDivisionError"
proof -
  have "triangle_area tiny_triangle \<noteq> 0"
    by (simp add: tiny_area)
  then show ?thesis
    by (simp add: area_zero_collinear tiny_membership)
qed

text \<open>
  C5, amended. For every point and every triangle whose coordinates are at most
  \<open>2^250\<close> in absolute value, \<open>point_in_triangle\<close> raises \<open>ZeroDivisionError\<close> exactly
  when the magnitude it computes for the triangle's normal is zero; the error is the
  result of the call, nothing catches it. When that magnitude is nonzero, the function
  returns a boolean and no division by zero occurs. It does not raise
  \<open>OverflowError\<close> there.
\<close>

theorem membership_zero_division_iff:
  assumes "coords_within coordinate_bound p"
    and "coords_within coordinate_bound (at0 (vertices t))"
    and "coords_within coordinate_bound (at1 (vertices t))"
    and "coords_within coordinate_bound (at2 (vertices t))"
  shows "((point_in_triangle p t = Inl ZeroDivisionError) = (magnitude (normal_of t) = Inr 0))
    \<and> ((\<exists>b. point_in_triangle p t = Inr b) = (magnitude (normal_of t) \<noteq> Inr 0))
    \<and> point_in_triangle p t \<noteq> Inl OverflowError"
proof -
  from bounded_magnitudes [OF assms] obtain m0 m1 m2 m3
    where m: "magnitude (normal_of t) = Inr m0"
      "magnitude (sub_cross p (at1 (vertices t)) (at2 (vertices t))) = Inr m1"
      "magnitude (sub_cross p (at2 (vertices t)) (at0 (vertices t))) = Inr m2"
      "magnitude (sub_cross p (at0 (vertices t)) (at1 (vertices t))) = Inr m3"
    by blast
  show ?thesis
  proof (cases "m0 = 0")
    case True
    with m have "point_in_triangle p t = Inl ZeroDivisionError"
      by (simp add: membership_zero)
    with m True show ?thesis by simp
  next
    case False
    from membership_result [OF m(1) False m(2) m(3) m(4)]
    show ?thesis using m(1) False by simp
  qed
qed

lemma flat_normal: "magnitude (normal_of flat_triangle) = Inr 0"
  by (simp add: flat_triangle_def planar_normal magnitude_axis_exact in_float_range_simple)

text \<open>
  The collinear vertices \<open>(0,0,0), (1,0,0), (2,0,0)\<close> give the normal \<open>(0,0,0)\<close> and the
  fault; the unit triangle, with the computed magnitude \<open>1\<close>, does not fault.
\<close>

lemma flat_within:
  "coords_within coordinate_bound (at0 (vertices flat_triangle))"
  "coords_within coordinate_bound (at1 (vertices flat_triangle))"
  "coords_within coordinate_bound (at2 (vertices flat_triangle))"
  by (simp_all add: flat_triangle_def init_vertices small_within)

theorem membership_zero_division_iff_witness:
  "point_in_triangle (vec 1 0 0) flat_triangle = Inl ZeroDivisionError
   \<and> (\<exists>b. point_in_triangle (vec 1 0 0) unit_triangle = Inr b)"
  using membership_zero_division_iff [OF unit_within(6) flat_within]
    membership_zero_division_iff [OF unit_within(6) unit_within(1,2,3)]
  by (simp add: flat_normal unit_normal)

section \<open>The pyramid query\<close>

lemma faces_of:
  assumes "pyramid_vertices p = (v0, v1, v2, v3)"
  shows "faces p = [Plane_init (v0, v1, v2), Plane_init (v0, v1, v3),
      Plane_init (v0, v2, v3), Plane_init (v1, v2, v3)]"
  using assms by (simp add: faces_def tuple_items_def numeral_3_eq_3)

lemma accepts_iff:
  "accepts l f \<longleftrightarrow>
     (\<exists>pt. line_plane_intersection_point l f = Inr (Some pt) \<and> point_in_triangle pt f = Inr True)"
  by (auto simp: accepts_def split: sum.splits option.splits)













subsection \<open>Evaluation on coordinates\<close>

lemma vec_simps:
  "vsub (vec a b c) (vec d e f) = vec (a - d) (b - e) (c - f)"
  "vadd (vec a b c) (vec d e f) = vec (a + d) (b + e) (c + f)"
  "vmul (vec a b c) k = vec (a * k) (b * k) (c * k)"
  "cross_product (vec a b c) (vec d e f) = vec (b * f - c * e) (c * d - a * f) (a * e - b * d)"
  "dot_product (vec a b c) (vec d e f) = a * d + b * e + c * f"
  by (simp_all add: vsub_def vadd_def vmul_def cross_product_def dot_product_def vec_def)

lemma vec_eq: "vec a b c = vec d e f \<longleftrightarrow> a = d \<and> b = e \<and> c = f"
  by (simp add: vec_def)


lemma init_normal: "normal_v (Plane_init (u, v, w)) = cross_product (vsub v u) (vsub w u)"
  by (simp add: Plane_init_def at0_def at1_def at2_def)

lemma normal_of_init: "normal_of (Plane_init (u, v, w)) = cross_product (vsub v u) (vsub w u)"
  by (simp add: normal_of_def init_vertices)

lemma magnitude_vec:
  "in_float_range a \<Longrightarrow> in_float_range b \<Longrightarrow> in_float_range c \<Longrightarrow>
   magnitude (vec a b c) = Inr (sqrt (a * a + b * b + c * c))"
  by (simp add: magnitude_exact vec_def norm3_def dot_product_def)




subsection \<open>A corner tetrahedron of edge \<open>s\<close> and a line along the \<open>z\<close> axis\<close>








subsection \<open>The query and its faces\<close>








subsection \<open>Faults of the query\<close>



section \<open>The two scenarios of the main block\<close>

lemma main_faces:
  "faces main_pyramid =
     [Plane_init (vec 0 0 0, vec 1 0 0, vec 0 1 0), Plane_init (vec 0 0 0, vec 1 0 0, vec 1 1 1),
      Plane_init (vec 0 0 0, vec 0 1 0, vec 1 1 1), Plane_init (vec 1 0 0, vec 0 1 0, vec 1 1 1)]"
  by (simp only: main_pyramid_def faces_list)

lemma main_solver:
  "line_plane_intersection_point main_line (Plane_init (vec 0 0 0, vec 1 0 0, vec 0 1 0))
     = Inr None"
  "line_plane_intersection_point main_line (Plane_init (vec 0 0 0, vec 1 0 0, vec 1 1 1))
     = Inr None"
  "line_plane_intersection_point main_line (Plane_init (vec 0 0 0, vec 0 1 0, vec 1 1 1))
     = Inr None"
  "line_plane_intersection_point main_line (Plane_init (vec 1 0 0, vec 0 1 0, vec 1 1 1))
     = Inr (Some (vec 1 1 1))"
  by (simp_all add: solver_result main_line_def init_normal init_vertices vec_simps vec_eq
      EPSILON_def)

lemma unit_components: "in_float_range 1" "in_float_range (- 1)"
  by (simp_all add: in_float_range_simple)

lemma main_member:
  "point_in_triangle (vec 1 1 1) (Plane_init (vec 1 0 0, vec 0 1 0, vec 1 1 1)) = Inr True"
  using membership_result [of "Plane_init (vec 1 0 0, vec 0 1 0, vec 1 1 1)" "sqrt 3"
      "vec 1 1 1" 0 0 "sqrt 3"]
  by (simp add: normal_of_init init_vertices sub_cross_def vec_simps magnitude_vec
      in_float_range_simple(1) unit_components EPSILON_def)

lemma main2_faces:
  "faces main_pyramid2 =
     [Plane_init (vec 0 0 0, vec 1 0 0, vec 0 1 0),
      Plane_init (vec 0 0 0, vec 1 0 0, vec 0 0 (- 1)),
      Plane_init (vec 0 0 0, vec 0 1 0, vec 0 0 (- 1)),
      Plane_init (vec 1 0 0, vec 0 1 0, vec 0 0 (- 1))]"
  by (simp only: main_pyramid2_def faces_list)

lemma main2_solver:
  "line_plane_intersection_point main_line (Plane_init (vec 0 0 0, vec 1 0 0, vec 0 0 (- 1)))
     = Inr None"
  "line_plane_intersection_point main_line (Plane_init (vec 0 0 0, vec 0 1 0, vec 0 0 (- 1)))
     = Inr None"
  "line_plane_intersection_point main_line (Plane_init (vec 1 0 0, vec 0 1 0, vec 0 0 (- 1)))
     = Inr (Some (vec 1 1 1))"
  by (simp_all add: solver_result main_line_def init_normal init_vertices vec_simps vec_eq
      EPSILON_def)

lemma main2_member:
  "point_in_triangle (vec 1 1 1) (Plane_init (vec 1 0 0, vec 0 1 0, vec 0 0 (- 1))) = Inr False"
  using membership_result [of "Plane_init (vec 1 0 0, vec 0 1 0, vec 0 0 (- 1))" "sqrt 3"
      "vec 1 1 1" "sqrt 3" "sqrt 3" "sqrt 3"]
  by (simp add: normal_of_init init_vertices sub_cross_def vec_simps magnitude_vec
      in_float_range_simple(1) unit_components EPSILON_def)



text \<open>
  C6. For the line with origin \<open>(0,0,0)\<close> and direction \<open>(1,1,1)\<close>, the query returns
  \<open>True\<close> for the pyramid \<open>(0,0,0), (1,0,0), (0,1,0), (1,1,1)\<close> and \<open>False\<close> for the
  pyramid \<open>(0,0,0), (1,0,0), (0,1,0), (0,0,-1)\<close>.
\<close>

theorem main_scenarios:
  "line_intersection_with_pyramid
      \<lparr>point1 = vec 0 0 0, direction = vec 1 1 1\<rparr>
      \<lparr>pyramid_vertices = (vec 0 0 0, vec 1 0 0, vec 0 1 0, vec 1 1 1)\<rparr> = Inr True
   \<and> line_intersection_with_pyramid
      \<lparr>point1 = vec 0 0 0, direction = vec 1 1 1\<rparr>
      \<lparr>pyramid_vertices = (vec 0 0 0, vec 1 0 0, vec 0 1 0, vec 0 0 (- 1))\<rparr> = Inr False"
  unfolding main_line_def [symmetric] main_pyramid_def [symmetric] main_pyramid2_def [symmetric]
  by (simp add: line_intersection_with_pyramid_def main_faces main2_faces main_solver
      main2_solver main_member main2_member)

end
